theory Spec2Isabelle
  imports Complex_Main
begin

section \<open>Data model of \<open>NanoVNASaver/Marker/Widget.py\<close>\<close>

text \<open>
  \<open>RFTools.Datapoint\<close> is a named tuple \<open>(freq: int, re: float, im: float)\<close>. Python floats
  are modelled as reals: the resolver only divides step sizes by two and compares, which is
  exact on floats for frequencies in Hz below \<open>2^52\<close>.
\<close>

record Datapoint =
  freq :: int
  re :: real
  im :: real

text \<open>The only exception the code of the marker raises by itself is an out-of-range index.\<close>

datatype error = IndexError

definition bind_err :: "error + 'a \<Rightarrow> ('a \<Rightarrow> error + 'b) \<Rightarrow> error + 'b" where
  "bind_err r f = (case r of Inl e \<Rightarrow> Inl e | Inr x \<Rightarrow> f x)"

text \<open>Python's \<open>xs[i]\<close>: an index below zero counts from the end, anything else out of range raises.\<close>

definition py_index :: "'a list \<Rightarrow> int \<Rightarrow> error + 'a" where
  "py_index xs i =
     (if 0 \<le> i \<and> i < int (length xs) then Inr (xs ! nat i)
      else if i < 0 \<and> - int (length xs) \<le> i then Inr (xs ! nat (int (length xs) + i))
      else Inl IndexError)"

text \<open>\<open>data[i].freq\<close>\<close>

definition freq_at :: "Datapoint list \<Rightarrow> int \<Rightarrow> error + int" where
  "freq_at data i = bind_err (py_index data i) (\<lambda>d. Inr (freq d))"

text \<open>
  \<open>Field\<close> and the table \<open>LABELS\<close>; \<open>default_field_names\<close> lists the field names that are
  active by default.
\<close>

record Field =
  fieldname :: string
  name :: string
  description :: string
  default_active :: bool

definition mkField :: "string \<Rightarrow> string \<Rightarrow> string \<Rightarrow> bool \<Rightarrow> Field" where
  "mkField f n d a = \<lparr>fieldname = f, name = n, description = d, default_active = a\<rparr>"

definition LABELS :: "Field list" where
  "LABELS =
    [mkField ''actualfreq'' ''Frequency'' ''Actual frequency'' True,
     mkField ''impedance'' ''Impedance'' ''Impedance'' True,
     mkField ''admittance'' ''Admittance'' ''Admittance'' False,
     mkField ''serr'' ''Series R'' ''Series R'' False,
     mkField ''serlc'' ''Series X'' ''Series equivalent L/C'' False,
     mkField ''serl'' ''Series L'' ''Series equivalent L'' True,
     mkField ''serc'' ''Series C'' ''Series equivalent C'' True,
     mkField ''parr'' ''Parallel R'' ''Parallel R'' True,
     mkField ''parlc'' ''Parallel X'' ''Parallel equivalent L/C'' True,
     mkField ''parl'' ''Parallel L'' ''Parallel equivalent L'' False,
     mkField ''parc'' ''Parallel C'' ''Parallel equivalent C'' False,
     mkField ''vswr'' ''VSWR'' ''VSWR'' True,
     mkField ''returnloss'' ''Return loss'' ''Return loss'' True,
     mkField ''s11q'' ''Quality factor'' ''S11 Quality factor'' True,
     mkField ''s11phase'' ''S11 Phase'' ''S11 Phase'' True,
     mkField ''s11groupdelay'' ''S11 Group Delay'' ''S11 Group Delay'' False,
     mkField ''s21gain'' ''S21 Gain'' ''S21 Gain'' True,
     mkField ''s21phase'' ''S21 Phase'' ''S21 Phase'' True,
     mkField ''s21groupdelay'' ''S21 Group Delay'' ''S21 Group Delay'' False]"

definition default_field_names :: "string list" where
  "default_field_names = map fieldname (filter default_active LABELS)"

text \<open>
  The frequency input widget of a marker carries the two neighbour frequencies that the
  resolver writes; \<open>-1\<close> means unset.
\<close>

record FrequencyInput =
  nextFrequency :: int
  previousFrequency :: int

text \<open>
  The state of a \<open>Marker\<close> that the numeric core reads or writes. \<open>label\<close> is the dictionary
  from field name to the text of its display label. \<open>fieldSelection\<close> is the instance
  attribute of that name: \<open>None\<close> while the instance has none of its own (the lookup then
  falls through to the class attribute), otherwise the address of the list object it refers
  to. \<open>left_form\<close> and \<open>right_form\<close> are the rows of the two form layouts, each a caption and
  the field whose label it shows.
\<close>

record Marker =
  frequency :: int
  location :: int
  frequencyInput :: FrequencyInput
  label :: "string \<rightharpoonup> string"
  returnloss_is_positive :: bool
  fieldSelection :: "nat option"
  left_form :: "(string \<times> string) list"
  right_form :: "(string \<times> string) list"

definition set_nextFrequency :: "Marker \<Rightarrow> int \<Rightarrow> Marker" where
  "set_nextFrequency self v = self\<lparr>frequencyInput := (frequencyInput self)\<lparr>nextFrequency := v\<rparr>\<rparr>"

definition set_previousFrequency :: "Marker \<Rightarrow> int \<Rightarrow> Marker" where
  "set_previousFrequency self v =
     self\<lparr>frequencyInput := (frequencyInput self)\<lparr>previousFrequency := v\<rparr>\<rparr>"

section \<open>\<open>Marker.findLocation\<close>\<close>

text \<open>
  The \<open>for i, item in enumerate(data)\<close> loop with its running \<open>min_distance\<close>. The last
  argument is what is left of \<open>data\<close> to enumerate; the equation for the empty rest is the code
  after the loop. An exception drops the marker, which the code leaves with whatever it had
  written before.
\<close>

fun scan_loop :: "Marker \<Rightarrow> Datapoint list \<Rightarrow> int \<Rightarrow> int \<Rightarrow> Datapoint list \<Rightarrow> error + Marker" where
  "scan_loop self data i min_distance [] =
     (let datasize = int (length data);
          self = self\<lparr>location := datasize - 1\<rparr>
      in bind_err (freq_at data (- 2)) (\<lambda>p. Inr (set_previousFrequency self p)))"
| "scan_loop self data i min_distance (item # rest) =
     (if \<bar>freq item - frequency self\<bar> \<le> min_distance
      then scan_loop self data (i + 1) \<bar>freq item - frequency self\<bar> rest
      else
        let datasize = int (length data);
            self = self\<lparr>location := i - 1\<rparr>;
            self = (if i < datasize then set_nextFrequency self (freq item) else self)
        in if i - 2 \<ge> 0
           then bind_err (freq_at data (i - 2)) (\<lambda>p. Inr (set_previousFrequency self p))
           else Inr self)"

definition findLocation :: "Marker \<Rightarrow> Datapoint list \<Rightarrow> error + Marker" where
  "findLocation self0 data =
     (let self = self0\<lparr>location := - 1\<rparr>;
          self = set_nextFrequency self (- 1);
          self = set_previousFrequency self (- 1)
      in if frequency self = 0 then Inr self
         else
           let datasize = int (length data)
           in if datasize = 0 then Inr self
              else
                bind_err (freq_at data 0) (\<lambda>min_freq.
                bind_err (freq_at data (- 1)) (\<lambda>max_freq.
                bind_err (freq_at data 1) (\<lambda>f1.
                bind_err (freq_at data 0) (\<lambda>f0.
                bind_err (freq_at data (- 1)) (\<lambda>fl.
                bind_err (freq_at data (- 2)) (\<lambda>fl2.
                  let lower_stepsize = f1 - f0;
                      upper_stepsize = fl - fl2
                  in if real_of_int (frequency self) + real_of_int lower_stepsize / 2
                          < real_of_int min_freq
                        \<or> real_of_int (frequency self) - real_of_int upper_stepsize / 2
                          > real_of_int max_freq
                     then Inr self
                     else scan_loop self data 0 max_freq data)))))))"

section \<open>Collaborators outside \<open>Marker/\<close>\<close>

text \<open>
  \<open>Widget.py\<close> calls into \<open>NanoVNASaver.RFTools\<close> and \<open>NanoVNASaver.Formatting\<close>, which are not
  part of the sources at hand. Their functions are parameters of the model, one field each
  and under the name the code calls them by: the parser of frequency strings, the
  formatters, the conversions of \<open>RFTools\<close>, and the properties and methods of a \<open>Datapoint\<close>
  (\<open>impedance()\<close>, \<open>vswr\<close>, \<open>phase\<close>, \<open>qFactor()\<close>, \<open>gain\<close>). They are taken to return a value;
  \<open>format_gain\<close> has a second parameter that defaults to \<open>False\<close>.
\<close>

record Env =
  parseFrequency :: "string \<Rightarrow> int"
  format_frequency :: "int \<Rightarrow> string"
  format_capacitance :: "real \<Rightarrow> string"
  format_inductance :: "real \<Rightarrow> string"
  format_complex_imp :: "complex \<Rightarrow> string"
  format_resistance :: "real \<Rightarrow> string"
  format_vswr :: "real \<Rightarrow> string"
  format_phase :: "real \<Rightarrow> string"
  format_q_factor :: "real \<Rightarrow> string"
  format_gain :: "real \<Rightarrow> bool \<Rightarrow> string"
  format_group_delay :: "real \<Rightarrow> string"
  impedance_to_capacitance :: "complex \<Rightarrow> int \<Rightarrow> real"
  impedance_to_inductance :: "complex \<Rightarrow> int \<Rightarrow> real"
  serial_to_parallel :: "complex \<Rightarrow> complex"
  groupDelay :: "Datapoint list \<Rightarrow> int \<Rightarrow> real"
  impedance :: "Datapoint \<Rightarrow> complex"
  vswr :: "Datapoint \<Rightarrow> real"
  phase :: "Datapoint \<Rightarrow> real"
  qFactor :: "Datapoint \<Rightarrow> real"
  gain :: "Datapoint \<Rightarrow> real"

section \<open>List objects and the class attribute \<open>Marker.fieldSelection\<close>\<close>

text \<open>
  Field selections are Python lists, which are mutable objects reached through references.
  The store holds the list objects, an address being a position in it; a new object goes to
  the end. \<open>Marker_fieldSelection\<close> is the class attribute \<open>fieldSelection = []\<close> of \<open>Marker\<close>:
  the address of the one list object that the class statement creates.
\<close>

record World =
  heap :: "string list list"
  Marker_fieldSelection :: nat

text \<open>\<open>fields.copy()\<close>: a new list object with the same elements.\<close>

definition list_copy :: "World \<Rightarrow> nat \<Rightarrow> World \<times> nat" where
  "list_copy w a = (w\<lparr>heap := heap w @ [heap w ! a]\<rparr>, length (heap w))"

text \<open>\<open>lst.append(x)\<close> by whoever holds a reference to the list at address \<open>a\<close>.\<close>

definition list_append :: "World \<Rightarrow> nat \<Rightarrow> string \<Rightarrow> World" where
  "list_append w a x = w\<lparr>heap := (heap w)[a := heap w ! a @ [x]]\<rparr>"

text \<open>
  The expression \<open>self.fieldSelection\<close>: the instance attribute if the instance has one, the
  class attribute otherwise. \<open>selection\<close> is the content of the list it refers to.
\<close>

definition get_fieldSelection :: "World \<Rightarrow> Marker \<Rightarrow> nat" where
  "get_fieldSelection w self =
     (case fieldSelection self of Some a \<Rightarrow> a | None \<Rightarrow> Marker_fieldSelection w)"

definition selection :: "World \<Rightarrow> Marker \<Rightarrow> string list" where
  "selection w self = heap w ! get_fieldSelection w self"

section \<open>Construction, \<open>buildForm\<close>, \<open>setFieldSelection\<close>, \<open>setFrequency\<close>\<close>

text \<open>
  \<open>self.fields\<close> maps a field name to the caption and the label widget of the field; a
  label widget is identified by its field name.
\<close>

definition Marker_fields :: "string \<rightharpoonup> string \<times> string" where
  "Marker_fields = map_of (map (\<lambda>l. (fieldname l, (name l, fieldname l))) LABELS)"

text \<open>
  The rows that \<open>buildForm\<close> adds to a form for a run of selected fields: fields that are
  not keys of \<open>self.fields\<close> are skipped. Hiding and showing widgets is left out.
\<close>

fun addRows :: "string list \<Rightarrow> (string \<times> string) list" where
  "addRows [] = []"
| "addRows (field # rest) =
     (case Marker_fields field of
        Some (lbl, val) \<Rightarrow> (lbl @ '':'', val) # addRows rest
      | None \<Rightarrow> addRows rest)"

definition buildForm :: "World \<Rightarrow> Marker \<Rightarrow> Marker" where
  "buildForm w self =
     (let self = self\<lparr>left_form := [], right_form := []\<rparr>;
          fs = selection w self
      in if length fs \<le> 3 then self\<lparr>left_form := addRows fs\<rparr>
         else
           let left_half = (length fs + 1) div 2;
               right_half = length fs
           in self\<lparr>left_form := addRows (take left_half fs),
                   right_form := addRows (take (right_half - left_half) (drop left_half fs))\<rparr>)"

text \<open>
  \<open>Marker.__init__\<close>, as far as the state above goes. It creates no \<open>fieldSelection\<close>
  attribute on the instance; \<open>location\<close> and \<open>returnloss_is_positive\<close> start from their class
  defaults, every label is empty, and a new frequency input has both neighbour
  frequencies unset.
\<close>

definition Marker_init :: "Env \<Rightarrow> World \<Rightarrow> string \<Rightarrow> Marker" where
  "Marker_init E w frequency_str =
     buildForm w
       \<lparr>frequency = parseFrequency E frequency_str,
        location = - 1,
        frequencyInput = \<lparr>nextFrequency = - 1, previousFrequency = - 1\<rparr>,
        label = map_of (map (\<lambda>l. (fieldname l, [])) LABELS),
        returnloss_is_positive = False,
        fieldSelection = None,
        left_form = [],
        right_form = []\<rparr>"

definition setFieldSelection :: "World \<Rightarrow> Marker \<Rightarrow> nat \<Rightarrow> World \<times> Marker" where
  "setFieldSelection w self fields_arg =
     (let (w, a) = list_copy w fields_arg;
          self = self\<lparr>fieldSelection := Some a\<rparr>
      in (w, buildForm w self))"

text \<open>
  In \<open>setFieldSelection\<close> the argument is the address of the list passed as \<open>fields\<close>.
  \<open>setFrequency\<close> returns the marker and the emissions of the signal \<open>updated\<close>, each with
  the marker as a listener finds it when the signal fires.
\<close>

datatype signal = Updated Marker

definition setFrequency :: "Env \<Rightarrow> Marker \<Rightarrow> string \<Rightarrow> Marker \<times> signal list" where
  "setFrequency E self frequency_str =
     (let self = self\<lparr>frequency := parseFrequency E frequency_str\<rparr>
      in (self, [Updated self]))"

section \<open>\<open>resetLabels\<close> and \<open>updateLabels\<close>\<close>

text \<open>
  \<open>self.label[k].setText(v)\<close>. The keys the code uses are literals, all of them field names
  of \<open>LABELS\<close>, which every marker has as keys from \<open>__init__\<close> on, so no lookup fails.
  Both functions follow the order of the statements in the source; \<open>updateLabels\<close> leaves by
  its two early returns, or with \<open>IndexError\<close> when the location is no index of a sequence.
\<close>

definition setText :: "Marker \<Rightarrow> string \<Rightarrow> string \<Rightarrow> Marker" where
  "setText self k v = self\<lparr>label := (label self)(k \<mapsto> v)\<rparr>"

definition resetLabels :: "Marker \<Rightarrow> Marker" where
  "resetLabels self =
     foldl (\<lambda>m k. setText m k [])
       self
       [''actualfreq'', ''impedance'', ''admittance'', ''parr'', ''parlc'', ''parl'', ''parc'',
        ''serlc'', ''serr'', ''serl'', ''serc'', ''vswr'', ''returnloss'', ''s21gain'',
        ''s11phase'', ''s21phase'', ''s11groupdelay'', ''s21groupdelay'', ''s11q'']"

definition updateLabels :: "Env \<Rightarrow> Marker \<Rightarrow> Datapoint list \<Rightarrow> Datapoint list \<Rightarrow> error + Marker" where
  "updateLabels E self s11data s21data =
     (if location self = - 1 then Inr self
      else
        bind_err (py_index s11data (location self)) (\<lambda>s11.
          let imp = impedance E s11;
              cap_str = format_capacitance E (impedance_to_capacitance E imp (freq s11));
              ind_str = format_inductance E (impedance_to_inductance E imp (freq s11));
              imp_p = serial_to_parallel E imp;
              cap_p_str = format_capacitance E (impedance_to_capacitance E imp_p (freq s11));
              ind_p_str = format_inductance E (impedance_to_inductance E imp_p (freq s11));
              x_str = (if Im imp < 0 then cap_str else ind_str);
              x_p_str = (if Im imp_p < 0 then cap_p_str else ind_p_str);
              self = setText self ''actualfreq'' (format_frequency E (freq s11));
              self = setText self ''impedance'' (format_complex_imp E imp);
              self = setText self ''serr'' (format_resistance E (Re imp));
              self = setText self ''serlc'' x_str;
              self = setText self ''serc'' cap_str;
              self = setText self ''serl'' ind_str;
              self = setText self ''admittance'' (format_complex_imp E imp_p);
              self = setText self ''parr'' (format_resistance E (Re imp_p));
              self = setText self ''parlc'' x_p_str;
              self = setText self ''parc'' cap_p_str;
              self = setText self ''parl'' ind_p_str;
              self = setText self ''vswr'' (format_vswr E (vswr E s11));
              self = setText self ''s11phase'' (format_phase E (phase E s11));
              self = setText self ''s11q'' (format_q_factor E (qFactor E s11));
              self = setText self ''returnloss''
                       (format_gain E (gain E s11) (returnloss_is_positive self));
              self = setText self ''s11groupdelay''
                       (format_group_delay E (groupDelay E s11data (location self)))
          in if length s21data \<noteq> length s11data then Inr self
             else
               bind_err (py_index s21data (location self)) (\<lambda>s21.
                 let self = setText self ''s21phase'' (format_phase E (phase E s21));
                     self = setText self ''s21gain'' (format_gain E (gain E s21) False);
                     self = setText self ''s21groupdelay''
                              (format_group_delay E (groupDelay E s21data (location self) / 2))
                 in Inr self)))"

section \<open>Example data\<close>

text \<open>The example sweep of the marker settings window (\<open>Marker/Settings.py\<close>).\<close>

definition mkDatapoint :: "int \<Rightarrow> real \<Rightarrow> real \<Rightarrow> Datapoint" where
  "mkDatapoint f r i = \<lparr>freq = f, re = r, im = i\<rparr>"

definition exampleData11 :: "Datapoint list" where
  "exampleData11 =
     [mkDatapoint 123000000 0.89 (- 0.11),
      mkDatapoint 123500000 0.9 (- 0.1),
      mkDatapoint 124000000 0.91 (- 0.95)]"

definition exampleData21 :: "Datapoint list" where
  "exampleData21 =
     [mkDatapoint 123000000 (- 0.25) 0.49,
      mkDatapoint 123456000 (- 0.3) 0.5,
      mkDatapoint 124000000 (- 0.2) 0.5]"

text \<open>
  The world after the class statement of \<open>Marker\<close> has run, an instance of the collaborators
  to run the model with (it parses the frequency strings used below and gives every formatter
  and conversion a simple value), and the example marker of the settings window.
\<close>

definition initialWorld :: World where
  "initialWorld = \<lparr>heap = [[]], Marker_fieldSelection = 0\<rparr>"

definition exampleEnv :: Env where
  "exampleEnv =
     \<lparr>parseFrequency =
        (\<lambda>s. if s = ''123456000'' then 123456000
             else if s = ''124000000'' then 124000000 else - 1),
      format_frequency = (\<lambda>f. if f = 123500000 then ''123.500MHz'' else ''Hz''),
      format_capacitance = (\<lambda>x. ''F''),
      format_inductance = (\<lambda>x. ''H''),
      format_complex_imp = (\<lambda>z. ''j''),
      format_resistance = (\<lambda>x. ''ohm''),
      format_vswr = (\<lambda>x. ''vswr''),
      format_phase = (\<lambda>x. ''deg''),
      format_q_factor = (\<lambda>x. ''q''),
      format_gain = (\<lambda>x invert. if invert then ''+dB'' else ''dB''),
      format_group_delay = (\<lambda>x. if x = 2 then ''2 s'' else if x = 4 then ''4 s'' else ''s''),
      impedance_to_capacitance = (\<lambda>z f. 0),
      impedance_to_inductance = (\<lambda>z f. 0),
      serial_to_parallel = (\<lambda>z. z),
      groupDelay = (\<lambda>data index. 4),
      impedance = (\<lambda>d. Complex (re d) (im d)),
      vswr = (\<lambda>d. 1),
      phase = (\<lambda>d. 0),
      qFactor = (\<lambda>d. 0),
      gain = (\<lambda>d. 0)\<rparr>"

definition exampleMarker :: Marker where
  "exampleMarker = Marker_init exampleEnv initialWorld ''123456000''"

text \<open>
  \<open>MarkerSettingsWindow.updateMarker\<close> of \<open>Marker/Settings.py\<close>: it passes the current field
  selection to the example marker, resolves it on the example sweep, empties the labels and
  fills them again. The call of \<open>setColoredText\<close> only restyles the group box and is left out.
  \<open>settingsWorld\<close> is the world in which the window holds the default field names as its
  current selection, at address 1; \<open>resolvedExample\<close> is the example marker after
  \<open>updateMarker\<close> there.
\<close>

definition updateMarker :: "Env \<Rightarrow> World \<Rightarrow> Marker \<Rightarrow> nat \<Rightarrow> error + World \<times> Marker" where
  "updateMarker E w marker currentFieldSelection =
     (let (w, m) = setFieldSelection w marker currentFieldSelection
      in bind_err (findLocation m exampleData11) (\<lambda>m.
           let m = resetLabels m
           in bind_err (updateLabels E m exampleData11 exampleData21) (\<lambda>m. Inr (w, m))))"

definition settingsWorld :: World where
  "settingsWorld = \<lparr>heap = [[], default_field_names], Marker_fieldSelection = 0\<rparr>"

definition resolvedExample :: Marker where
  "resolvedExample = snd (projr (updateMarker exampleEnv settingsWorld exampleMarker 1))"

section \<open>Vocabulary for the scan\<close>

text \<open>
  The distance of a sample from the target frequency; the bound the scan compares position
  \<open>j\<close> with (the starting bound at the first position, the distance of the sample before
  otherwise); the position at which the scan first sees the distance exceed its bound, and
  the case that it never does; the marker as the code leaves it in either case, and with
  all three results unset.
\<close>

definition distance :: "int \<Rightarrow> Datapoint \<Rightarrow> int" where
  "distance f d = \<bar>freq d - f\<bar>"

definition bound_at :: "int \<Rightarrow> Datapoint list \<Rightarrow> nat \<Rightarrow> int \<Rightarrow> nat \<Rightarrow> int" where
  "bound_at f data i0 md j = (if j = i0 then md else distance f (data ! (j - 1)))"

definition stop_state :: "Marker \<Rightarrow> Datapoint list \<Rightarrow> nat \<Rightarrow> Marker" where
  "stop_state self data k =
     (let s = set_nextFrequency (self\<lparr>location := int k - 1\<rparr>) (freq (data ! k))
      in if 2 \<le> k then set_previousFrequency s (freq (data ! (k - 2))) else s)"

definition end_state :: "Marker \<Rightarrow> Datapoint list \<Rightarrow> Marker" where
  "end_state self data =
     set_previousFrequency (self\<lparr>location := int (length data) - 1\<rparr>)
       (freq (data ! (length data - 2)))"

definition stops_at :: "int \<Rightarrow> Datapoint list \<Rightarrow> nat \<Rightarrow> int \<Rightarrow> nat \<Rightarrow> bool" where
  "stops_at f data i0 md k \<longleftrightarrow>
     i0 \<le> k \<and> k < length data \<and>
     (\<forall>j. i0 \<le> j \<and> j < k \<longrightarrow> distance f (data ! j) \<le> bound_at f data i0 md j) \<and>
     bound_at f data i0 md k < distance f (data ! k)"

definition never_stops :: "int \<Rightarrow> Datapoint list \<Rightarrow> nat \<Rightarrow> int \<Rightarrow> bool" where
  "never_stops f data i0 md \<longleftrightarrow>
     (\<forall>j. i0 \<le> j \<and> j < length data \<longrightarrow> distance f (data ! j) \<le> bound_at f data i0 md j)"

definition cleared :: "Marker \<Rightarrow> Marker" where
  "cleared self =
     set_previousFrequency (set_nextFrequency (self\<lparr>location := - 1\<rparr>) (- 1)) (- 1)"

text \<open>
  The two edge margins and the tolerant range as the specification words them: half the
  first and half the last step, both zero for fewer than two samples.
\<close>

definition lower_margin :: "Datapoint list \<Rightarrow> real" where
  "lower_margin samples =
     (if length samples < 2 then 0
      else real_of_int (freq (samples ! 1) - freq (samples ! 0)) / 2)"

definition upper_margin :: "Datapoint list \<Rightarrow> real" where
  "upper_margin samples =
     (if length samples < 2 then 0
      else real_of_int (freq (last samples) - freq (samples ! (length samples - 2))) / 2)"

definition outside_range :: "int \<Rightarrow> Datapoint list \<Rightarrow> bool" where
  "outside_range target_freq samples \<longleftrightarrow>
     real_of_int target_freq + lower_margin samples < real_of_int (freq (hd samples))
     \<or> real_of_int target_freq - upper_margin samples > real_of_int (freq (last samples))"

text \<open>
  What a caller reads off the marker after \<open>findLocation\<close>: the location and the previous
  and next frequency, or the exception.
\<close>

definition outcome :: "error + Marker \<Rightarrow> error + int \<times> int \<times> int" where
  "outcome r =
     (case r of
        Inl e \<Rightarrow> Inl e
      | Inr st \<Rightarrow> Inr (location st, previousFrequency (frequencyInput st),
                      nextFrequency (frequencyInput st)))"

section \<open>The scan loop\<close>

lemma freq_at_nonneg: "k < length data \<Longrightarrow> freq_at data (int k) = Inr (freq (data ! k))"
  by (simp add: freq_at_def py_index_def bind_err_def)

lemma freq_at_minus2: "2 \<le> length data \<Longrightarrow> freq_at data (- 2) = Inr (freq (data ! (length data - 2)))"
  by (simp add: freq_at_def py_index_def bind_err_def nat_diff_distrib')

lemma freq_at_minus1: "1 \<le> length data \<Longrightarrow> freq_at data (- 1) = Inr (freq (data ! (length data - 1)))"
  by (simp add: freq_at_def py_index_def bind_err_def nat_diff_distrib')

lemma scan_loop_char:
  assumes "data = pre @ rest" and "2 \<le> length data"
  shows "(\<exists>k. stops_at (frequency self) data (length pre) md k \<and>
              scan_loop self data (int (length pre)) md rest = Inr (stop_state self data k))
       \<or> (never_stops (frequency self) data (length pre) md \<and>
              scan_loop self data (int (length pre)) md rest = Inr (end_state self data))"
  using assms
proof (induction rest arbitrary: pre md)
  case Nil
  then have "never_stops (frequency self) data (length pre) md"
    by (simp add: never_stops_def)
  moreover have "scan_loop self data (int (length pre)) md [] = Inr (end_state self data)"
    using Nil by (simp add: freq_at_minus2 bind_err_def end_state_def)
  ultimately show ?case by blast
next
  case (Cons item rest)
  let ?n = "length pre"
  have item: "data ! ?n = item" and n_lt: "?n < length data"
    using Cons.prems by simp_all
  show ?case
  proof (cases "distance (frequency self) item \<le> md")
    case True
    have step: "scan_loop self data (int ?n) md (item # rest)
                = scan_loop self data (int (length (pre @ [item]))) (distance (frequency self) item) rest"
      using True by (simp add: distance_def add.commute)
    have bnd: "bound_at (frequency self) data (Suc ?n) (distance (frequency self) item) j = bound_at (frequency self) data ?n md j"
      if "Suc ?n \<le> j" for j
      using that item by (auto simp: bound_at_def)
    have here: "distance (frequency self) (data ! ?n) \<le> bound_at (frequency self) data ?n md ?n"
      using True item by (simp add: bound_at_def)
    from Cons.IH [of "pre @ [item]" "distance (frequency self) item"] Cons.prems
    consider (stop) k where "stops_at (frequency self) data (Suc ?n) (distance (frequency self) item) k"
        "scan_loop self data (int (length (pre @ [item]))) (distance (frequency self) item) rest
           = Inr (stop_state self data k)"
      | (fall) "never_stops (frequency self) data (Suc ?n) (distance (frequency self) item)"
        "scan_loop self data (int (length (pre @ [item]))) (distance (frequency self) item) rest
           = Inr (end_state self data)"
      by auto
    then show ?thesis
    proof cases
      case stop
      have "stops_at (frequency self) data ?n md k"
        unfolding stops_at_def
      proof (intro conjI allI impI)
        show "?n \<le> k" "k < length data"
          using stop(1) by (simp_all add: stops_at_def)
        show "bound_at (frequency self) data ?n md k < distance (frequency self) (data ! k)"
          using stop(1) bnd [of k] by (simp add: stops_at_def)
        fix j assume j: "?n \<le> j \<and> j < k"
        show "distance (frequency self) (data ! j) \<le> bound_at (frequency self) data ?n md j"
        proof (cases "j = ?n")
          case True
          then show ?thesis using here by simp
        next
          case False
          then have "Suc ?n \<le> j" using j by simp
          then show ?thesis using stop(1) j bnd [of j, symmetric] by (auto simp: stops_at_def)
        qed
      qed
      then show ?thesis using stop(2) step by auto
    next
      case fall
      have "never_stops (frequency self) data ?n md"
        unfolding never_stops_def
      proof (intro allI impI)
        fix j assume j: "?n \<le> j \<and> j < length data"
        show "distance (frequency self) (data ! j) \<le> bound_at (frequency self) data ?n md j"
        proof (cases "j = ?n")
          case True
          then show ?thesis using here by simp
        next
          case False
          then have "Suc ?n \<le> j" using j by simp
          then show ?thesis using fall(1) j bnd [of j, symmetric] by (auto simp: never_stops_def)
        qed
      qed
      then show ?thesis using fall(2) step by auto
    qed
  next
    case False
    have "stops_at (frequency self) data ?n md ?n"
      using False item n_lt by (simp add: stops_at_def bound_at_def)
    moreover have "scan_loop self data (int ?n) md (item # rest) = Inr (stop_state self data ?n)"
    proof (cases "2 \<le> ?n")
      case True
      then have "freq_at data (int ?n - 2) = Inr (freq (data ! (?n - 2)))"
        using freq_at_nonneg [of "?n - 2" data] n_lt by simp
      then show ?thesis
        using False True item n_lt
        by (simp add: distance_def stop_state_def Let_def bind_err_def)
    next
      case F2: False
      then show ?thesis
        using False item n_lt
        by (simp add: distance_def stop_state_def Let_def)
    qed
    ultimately show ?thesis by blast
  qed
qed

section \<open>The cases of \<open>findLocation\<close>\<close>

lemma cleared_simps:
  "frequency (cleared self) = frequency self"
  "location (cleared self) = - 1"
  "nextFrequency (frequencyInput (cleared self)) = - 1"
  "previousFrequency (frequencyInput (cleared self)) = - 1"
  "label (cleared self) = label self"
  by (simp_all add: cleared_def set_nextFrequency_def set_previousFrequency_def)

lemma findLocation_zero: "frequency self = 0 \<Longrightarrow> findLocation self data = Inr (cleared self)"
  by (simp add: findLocation_def cleared_def Let_def set_nextFrequency_def set_previousFrequency_def)

lemma findLocation_empty: "findLocation self [] = Inr (cleared self)"
  by (simp add: findLocation_def cleared_def Let_def set_nextFrequency_def set_previousFrequency_def)

lemma findLocation_single:
  "frequency self \<noteq> 0 \<Longrightarrow> length data = 1 \<Longrightarrow> findLocation self data = Inl IndexError"
  by (simp add: findLocation_def Let_def set_nextFrequency_def set_previousFrequency_def
      freq_at_def py_index_def bind_err_def)

lemma findLocation_ge2:
  assumes "frequency self \<noteq> 0" and "2 \<le> length data"
  shows "findLocation self data =
           (if outside_range (frequency self) data then Inr (cleared self)
            else scan_loop (cleared self) data 0 (freq (last data)) data)"
proof -
  have ne: "data \<noteq> []" using assms(2) by auto
  have f0: "freq_at data 0 = Inr (freq (hd data))"
    using freq_at_nonneg [of 0 data] ne by (simp add: hd_conv_nth)
  have f1: "freq_at data 1 = Inr (freq (data ! 1))"
    using freq_at_nonneg [of 1 data] assms(2) by simp
  have fl: "freq_at data (- 1) = Inr (freq (last data))"
    using freq_at_minus1 [of data] ne assms(2) by (simp add: last_conv_nth)
  have fl2: "freq_at data (- 2) = Inr (freq (data ! (length data - 2)))"
    using freq_at_minus2 [OF assms(2)] .
  have c: "frequency (cleared self) \<noteq> 0" using assms(1) by (simp add: cleared_simps)
  have m: "lower_margin data = real_of_int (freq (data ! 1) - freq (hd data)) / 2"
     "upper_margin data = real_of_int (freq (last data) - freq (data ! (length data - 2))) / 2"
    using assms(2) ne by (simp_all add: lower_margin_def upper_margin_def hd_conv_nth)
  show ?thesis
    unfolding findLocation_def Let_def cleared_def [symmetric]
    using c ne by (simp add: f0 f1 fl fl2 bind_err_def outside_range_def m cleared_simps)
qed

lemma findLocation_cases:
  assumes "findLocation self data = Inr st"
  obtains (unset) "st = cleared self"
  | (stop) k where "2 \<le> length data" "stops_at (frequency self) data 0 (freq (last data)) k"
      "st = stop_state (cleared self) data k"
  | (fall) "2 \<le> length data" "never_stops (frequency self) data 0 (freq (last data))"
      "st = end_state (cleared self) data"
proof (cases "frequency self = 0 \<or> data = []")
  case True
  then have "st = cleared self"
    using assms findLocation_zero [of self data] findLocation_empty [of self] by auto
  then show ?thesis by (rule unset)
next
  case False
  then have nz: "frequency self \<noteq> 0" and ne: "data \<noteq> []" by auto
  have "length data \<noteq> 1"
    using findLocation_single [OF nz, of data] assms by auto
  moreover have "length data \<noteq> 0" using ne by simp
  ultimately have len: "2 \<le> length data" by arith
  show ?thesis
  proof (cases "outside_range (frequency self) data")
    case True
    then have "st = cleared self"
      using assms findLocation_ge2 [OF nz len] by simp
    then show ?thesis by (rule unset)
  next
    case False
    then have sc: "scan_loop (cleared self) data 0 (freq (last data)) data = Inr st"
      using assms findLocation_ge2 [OF nz len] by simp
    from scan_loop_char [of data "[]" data "cleared self" "freq (last data)"] len
    show ?thesis
      using sc stop fall by (auto simp: cleared_simps)
  qed
qed

lemma stop_state_simps:
  "location (stop_state self data k) = int k - 1"
  "nextFrequency (frequencyInput (stop_state self data k)) = freq (data ! k)"
  "previousFrequency (frequencyInput (stop_state self data k)) =
     (if 2 \<le> k then freq (data ! (k - 2)) else previousFrequency (frequencyInput self))"
  "label (stop_state self data k) = label self"
  "frequency (stop_state self data k) = frequency self"
  by (simp_all add: stop_state_def Let_def set_nextFrequency_def set_previousFrequency_def)

lemma end_state_simps:
  "location (end_state self data) = int (length data) - 1"
  "nextFrequency (frequencyInput (end_state self data)) = nextFrequency (frequencyInput self)"
  "previousFrequency (frequencyInput (end_state self data)) = freq (data ! (length data - 2))"
  "label (end_state self data) = label self"
  "frequency (end_state self data) = frequency self"
  by (simp_all add: end_state_def set_nextFrequency_def set_previousFrequency_def)

text \<open>The equations that run \<open>findLocation\<close> on a concrete marker and sweep.\<close>

lemmas run_findLocation =
  findLocation_def Let_def freq_at_def py_index_def bind_err_def set_nextFrequency_def
  set_previousFrequency_def mkDatapoint_def outcome_def

section \<open>The example of the settings window\<close>

lemma exampleMarker_frequency: "frequency exampleMarker = 123456000"
  by (simp add: exampleMarker_def Marker_init_def buildForm_def exampleEnv_def Let_def)

lemma exampleMarker_location: "location exampleMarker = - 1"
  by (simp add: exampleMarker_def Marker_init_def buildForm_def exampleEnv_def Let_def)

lemma exampleData11_simps:
  "length exampleData11 = 3"
  "freq (exampleData11 ! 0) = 123000000"
  "freq (exampleData11 ! 1) = 123500000"
  "freq (exampleData11 ! Suc 0) = 123500000"
  "freq (exampleData11 ! 2) = 124000000"
  "freq (hd exampleData11) = 123000000"
  "freq (last exampleData11) = 124000000"
  by (simp_all add: exampleData11_def mkDatapoint_def)

lemma findLocation_example:
  "findLocation exampleMarker exampleData11 = Inr (stop_state (cleared exampleMarker) exampleData11 2)"
proof -
  have nz: "frequency exampleMarker \<noteq> 0" by (simp add: exampleMarker_frequency)
  have len: "2 \<le> length exampleData11" by (simp add: exampleData11_simps)
  have inside: "\<not> outside_range (frequency exampleMarker) exampleData11"
    by (simp add: outside_range_def lower_margin_def upper_margin_def exampleData11_simps
        exampleMarker_frequency)
  have "scan_loop (cleared exampleMarker) exampleData11 0 124000000 exampleData11
          = Inr (stop_state (cleared exampleMarker) exampleData11 2)"
    by (simp add: exampleData11_def mkDatapoint_def cleared_simps exampleMarker_frequency
        stop_state_def Let_def freq_at_def py_index_def bind_err_def)
  then show ?thesis
    using findLocation_ge2 [OF nz len] inside by (simp add: exampleData11_simps)
qed

section \<open>The resolved index is unset or valid\<close>

text \<open>
  Claim C4. Whenever \<open>findLocation\<close> returns normally on a sample sequence, the location it
  leaves in the marker is either the sentinel \<open>-1\<close> (unset) or an index into that very
  sequence: at least \<open>0\<close> and below its length. This holds for every sequence and every
  target frequency.
\<close>

theorem findLocation_location_valid:
  assumes "findLocation self data = Inr st"
  shows "location st = - 1 \<or> (0 \<le> location st \<and> location st < int (length data))"
  using assms
proof (cases rule: findLocation_cases)
  case unset
  then show ?thesis by (simp add: cleared_simps)
next
  case (stop k)
  then have "k < length data" by (simp add: stops_at_def)
  then show ?thesis using stop(3) by (cases "k = 0") (auto simp: stop_state_simps)
next
  case fall
  then show ?thesis by (simp add: end_state_simps)
qed

theorem findLocation_location_valid_witness:
  "findLocation exampleMarker exampleData11
     = Inr (stop_state (cleared exampleMarker) exampleData11 2)
   \<and> location (stop_state (cleared exampleMarker) exampleData11 2) = 1
   \<and> (1::int) < int (length exampleData11)"
  using findLocation_location_valid [OF findLocation_example] findLocation_example
  by (simp add: stop_state_simps exampleData11_simps)

section \<open>The neighbour frequencies\<close>

text \<open>
  Claim C5. After a successful resolution, let \<open>i\<close> be the position after the matched index.
  If \<open>i\<close> is a position of the sequence, it is the first position at which the scan saw the
  distance exceed its bound, and the next frequency is the frequency of the sample there;
  if the matched index is the last one, the scan never saw the distance increase and the next
  frequency stays unset. The previous frequency is the frequency of the sample at \<open>i - 2\<close>,
  and unset when there is no such position.
\<close>

theorem findLocation_neighbours:
  assumes "findLocation self data = Inr st"
    and "location st \<noteq> - 1"
    and "int i = location st + 1"
  shows "i \<le> length data
       \<and> (i < length data \<longrightarrow>
            stops_at (frequency self) data 0 (freq (last data)) i
            \<and> nextFrequency (frequencyInput st) = freq (data ! i))
       \<and> (i = length data \<longrightarrow>
            never_stops (frequency self) data 0 (freq (last data))
            \<and> nextFrequency (frequencyInput st) = - 1)
       \<and> (2 \<le> i \<longrightarrow> previousFrequency (frequencyInput st) = freq (data ! (i - 2)))
       \<and> (i < 2 \<longrightarrow> previousFrequency (frequencyInput st) = - 1)"
  using assms(1)
proof (cases rule: findLocation_cases)
  case unset
  then show ?thesis using assms(2) by (simp add: cleared_simps)
next
  case (stop k)
  then have "i = k" using assms(3) by (simp add: stop_state_simps)
  moreover have "k < length data" using stop(2) by (simp add: stops_at_def)
  ultimately show ?thesis
    using stop(2,3) by (simp add: stop_state_simps cleared_simps)
next
  case fall
  then have "i = length data" using assms(3) by (simp add: end_state_simps)
  then show ?thesis
    using fall by (simp add: end_state_simps cleared_simps)
qed

theorem findLocation_neighbours_witness:
  "outcome (findLocation exampleMarker exampleData11) = Inr (1, 123000000, 124000000)
   \<and> stops_at 123456000 exampleData11 0 124000000 2
   \<and> freq (exampleData11 ! 2) = 124000000
   \<and> freq (exampleData11 ! 0) = 123000000"
  using findLocation_neighbours [OF findLocation_example, of 2]
  by (simp add: outcome_def findLocation_example stop_state_simps cleared_simps
      exampleData11_simps exampleMarker_frequency)

section \<open>The nearest sample\<close>

lemma chain_min:
  fixes d :: "nat \<Rightarrow> int"
  assumes "\<And>j. 1 \<le> j \<Longrightarrow> j \<le> m \<Longrightarrow> d j \<le> d (j - 1)" and "j \<le> m"
  shows "d m \<le> d j"
  using assms
proof (induction m)
  case 0
  then show ?case by simp
next
  case (Suc m)
  show ?case
  proof (cases "j = Suc m")
    case True
    then show ?thesis by simp
  next
    case False
    then have "j \<le> m" using Suc.prems(2) by simp
    then have "d m \<le> d j" using Suc.IH Suc.prems(1) by simp
    moreover have "d (Suc m) \<le> d m" using Suc.prems(1) [of "Suc m"] by simp
    ultimately show ?thesis by simp
  qed
qed

lemma past_turn:
  fixes a b c f :: int
  assumes "a < b" and "b \<le> c" and "\<bar>a - f\<bar> < \<bar>b - f\<bar>"
  shows "\<bar>a - f\<bar> < \<bar>c - f\<bar>"
  using assms by arith

lemma ascending_nth:
  assumes "sorted_wrt (<) (map freq data)" and "a < b" and "b < length data"
  shows "freq (data ! a) < freq (data ! b)"
  using sorted_wrt_nth_less [OF assms(1), of a b] assms(2,3) by simp

lemma stop_is_nearest:
  assumes asc: "sorted_wrt (<) (map freq data)"
    and start: "distance f (data ! 0) \<le> md"
    and stop: "stops_at f data 0 md k"
  shows "1 \<le> k"
    and "\<forall>j<length data. distance f (data ! (k - 1)) \<le> distance f (data ! j)"
    and "\<forall>j<length data. distance f (data ! j) = distance f (data ! (k - 1)) \<longrightarrow> j \<le> k - 1"
proof -
  have k_lt: "k < length data" and up: "bound_at f data 0 md k < distance f (data ! k)"
    and down: "\<And>j. j < k \<Longrightarrow> distance f (data ! j) \<le> bound_at f data 0 md j"
    using stop by (simp_all add: stops_at_def)
  show k1: "1 \<le> k"
  proof (rule ccontr)
    assume "\<not> 1 \<le> k"
    then have "k = 0" by simp
    then show False using up start by (simp add: bound_at_def)
  qed
  have turn: "distance f (data ! (k - 1)) < distance f (data ! k)"
    using up k1 by (simp add: bound_at_def)
  have before: "distance f (data ! (k - 1)) \<le> distance f (data ! j)" if "j \<le> k - 1" for j
  proof (rule chain_min [where d = "\<lambda>j. distance f (data ! j)", OF _ that])
    fix i assume "1 \<le> i" "i \<le> k - 1"
    then show "distance f (data ! i) \<le> distance f (data ! (i - 1))"
      using down [of i] k1 by (simp add: bound_at_def)
  qed
  have after: "distance f (data ! (k - 1)) < distance f (data ! j)" if "k \<le> j" "j < length data" for j
  proof -
    have "freq (data ! (k - 1)) < freq (data ! k)"
      using ascending_nth [OF asc, of "k - 1" k] k1 k_lt by simp
    moreover have "freq (data ! k) \<le> freq (data ! j)"
      using ascending_nth [OF asc, of k j] that by (cases "k = j") auto
    ultimately show ?thesis
      using turn past_turn unfolding distance_def by blast
  qed
  show "\<forall>j<length data. distance f (data ! (k - 1)) \<le> distance f (data ! j)"
  proof (intro allI impI)
    fix j assume j: "j < length data"
    show "distance f (data ! (k - 1)) \<le> distance f (data ! j)"
    proof (cases "j \<le> k - 1")
      case True
      then show ?thesis by (rule before)
    next
      case False
      then have "k \<le> j" by simp
      then show ?thesis using after [of j] j by simp
    qed
  qed
  show "\<forall>j<length data. distance f (data ! j) = distance f (data ! (k - 1)) \<longrightarrow> j \<le> k - 1"
  proof (intro allI impI)
    fix j assume j: "j < length data" "distance f (data ! j) = distance f (data ! (k - 1))"
    show "j \<le> k - 1"
    proof (rule ccontr)
      assume "\<not> j \<le> k - 1"
      then have "k \<le> j" by simp
      then show False using after [of j] j by simp
    qed
  qed
qed

lemma fall_is_nearest:
  assumes fall: "never_stops f data 0 md" and j: "j < length data"
  shows "distance f (data ! (length data - 1)) \<le> distance f (data ! j)"
proof (rule chain_min [where d = "\<lambda>j. distance f (data ! j)"])
  show "j \<le> length data - 1" using j by simp
  fix i assume i: "1 \<le> i" "i \<le> length data - 1"
  then have "i < length data" using j by arith
  then have "distance f (data ! i) \<le> bound_at f data 0 md i"
    using fall by (simp add: never_stops_def)
  then show "distance f (data ! i) \<le> distance f (data ! (i - 1))"
    using i by (simp add: bound_at_def)
qed

text \<open>
  Claim C1, as amended. For a sequence of at least two samples in strictly ascending order of
  frequency, and a target frequency other than zero that lies in the tolerant range and whose
  distance from the first sample is at most the frequency of the last sample (the bound the
  scan starts from), \<open>findLocation\<close> returns normally with a location that is an index of the
  sequence, at which the distance from the target is minimal; when two indices are at the
  minimal distance, the location is the later one. For the samples at 123000000, 123500000
  and 124000000 Hz and the target 123456000 Hz the location is 1.
\<close>

theorem findLocation_nearest:
  assumes len: "2 \<le> length data"
    and asc: "sorted_wrt (<) (map freq data)"
    and nz: "frequency self \<noteq> 0"
    and inside: "\<not> outside_range (frequency self) data"
    and start: "distance (frequency self) (hd data) \<le> freq (last data)"
  shows "\<exists>st. findLocation self data = Inr st
           \<and> 0 \<le> location st \<and> location st < int (length data)
           \<and> (\<forall>j<length data. distance (frequency self) (data ! nat (location st))
                                 \<le> distance (frequency self) (data ! j))
           \<and> (\<forall>j<length data. distance (frequency self) (data ! j)
                                   = distance (frequency self) (data ! nat (location st))
                                 \<longrightarrow> int j \<le> location st)"
proof -
  let ?f = "frequency self" and ?M = "freq (last data)"
  have run: "findLocation self data = scan_loop (cleared self) data 0 ?M data"
    using findLocation_ge2 [OF nz len] inside by simp
  have start0: "distance ?f (data ! 0) \<le> ?M"
    using start len by (cases data) auto
  from scan_loop_char [of data "[]" data "cleared self" ?M] len
  consider (stop) k where "stops_at ?f data 0 ?M k"
      "findLocation self data = Inr (stop_state (cleared self) data k)"
    | (fall) "never_stops ?f data 0 ?M"
      "findLocation self data = Inr (end_state (cleared self) data)"
    using run by (auto simp: cleared_simps)
  then show ?thesis
  proof cases
    case stop
    note near = stop_is_nearest [OF asc start0 stop(1)]
    have k_lt: "k < length data" using stop(1) by (simp add: stops_at_def)
    have loc: "location (stop_state (cleared self) data k) = int (k - 1)"
      using near(1) by (simp add: stop_state_simps)
    have "0 \<le> int (k - 1)" and "int (k - 1) < int (length data)"
      using k_lt by simp_all
    moreover have "\<forall>j<length data. distance ?f (data ! j) = distance ?f (data ! (k - 1))
                      \<longrightarrow> int j \<le> int (k - 1)"
      using near(3) by simp
    ultimately show ?thesis
      using stop(2) near(2)
      by (intro exI [of _ "stop_state (cleared self) data k"]) (simp only: loc nat_int simp_thms)
  next
    case fall
    have loc: "location (end_state (cleared self) data) = int (length data - 1)"
      using len by (auto simp: end_state_simps)
    have "0 \<le> int (length data - 1)" and "int (length data - 1) < int (length data)"
      using len by auto
    moreover have "\<forall>j<length data. distance ?f (data ! (length data - 1)) \<le> distance ?f (data ! j)"
      using fall_is_nearest [OF fall(1)] by simp
    moreover have "\<forall>j<length data. distance ?f (data ! j) = distance ?f (data ! (length data - 1))
                      \<longrightarrow> int j \<le> int (length data - 1)"
      by auto
    ultimately show ?thesis
      using fall(2)
      by (intro exI [of _ "end_state (cleared self) data"]) (simp only: loc nat_int simp_thms)
  qed
qed

text \<open>The example of the settings window satisfies every hypothesis, and its location is 1.\<close>

theorem findLocation_nearest_witness:
  "2 \<le> length exampleData11
   \<and> sorted_wrt (<) (map freq exampleData11)
   \<and> frequency exampleMarker \<noteq> 0
   \<and> \<not> outside_range (frequency exampleMarker) exampleData11
   \<and> distance (frequency exampleMarker) (hd exampleData11) \<le> freq (last exampleData11)
   \<and> outcome (findLocation exampleMarker exampleData11) = Inr (1, 123000000, 124000000)
   \<and> distance (frequency exampleMarker) (exampleData11 ! 1) = 44000
   \<and> distance (frequency exampleMarker) (exampleData11 ! 0) = 456000
   \<and> distance (frequency exampleMarker) (exampleData11 ! 2) = 544000"
proof -
  have h1: "2 \<le> length exampleData11" by (simp add: exampleData11_simps)
  have h2: "sorted_wrt (<) (map freq exampleData11)"
    by (simp add: exampleData11_def mkDatapoint_def)
  have h3: "frequency exampleMarker \<noteq> 0" by (simp add: exampleMarker_frequency)
  have h4: "\<not> outside_range (frequency exampleMarker) exampleData11"
    by (simp add: outside_range_def lower_margin_def upper_margin_def exampleData11_simps
        exampleMarker_frequency)
  have h5: "distance (frequency exampleMarker) (hd exampleData11) \<le> freq (last exampleData11)"
    by (simp add: distance_def exampleData11_def mkDatapoint_def exampleMarker_frequency)
  from findLocation_nearest [OF h1 h2 h3 h4 h5]
  obtain st where st: "findLocation exampleMarker exampleData11 = Inr st"
    and "0 \<le> location st" by blast
  have eq: "st = stop_state (cleared exampleMarker) exampleData11 2"
    using st findLocation_example by simp
  have "outcome (findLocation exampleMarker exampleData11) = Inr (1, 123000000, 124000000)"
    unfolding st eq
    by (simp add: outcome_def stop_state_simps cleared_simps exampleData11_simps)
  moreover have "distance (frequency exampleMarker) (exampleData11 ! 1) = 44000"
    "distance (frequency exampleMarker) (exampleData11 ! 0) = 456000"
    "distance (frequency exampleMarker) (exampleData11 ! 2) = 544000"
    by (simp_all add: distance_def exampleData11_simps exampleMarker_frequency)
  ultimately show ?thesis using h1 h2 h3 h4 h5 by simp
qed

text \<open>
  Claim C1 as stated fails on three sweeps in ascending order with the target inside the
  tolerant range. With samples at 100, 200 and 300 Hz and the target 150 Hz, indices 0 and 1
  are equally near and the location is 1, the later of the two. With the target 0 the marker
  counts as having no frequency and nothing is resolved. With samples at 1 and 11 Hz and the
  target 16 Hz the first distance, 15, is already above the starting bound 11, so the scan
  stops at position 0 and leaves the location at \<open>-1\<close>.
\<close>

theorem findLocation_nearest_counterexample:
  "sorted_wrt (<) (map freq [mkDatapoint 100 0 0, mkDatapoint 200 0 0, mkDatapoint 300 0 0])
   \<and> \<not> outside_range 150 [mkDatapoint 100 0 0, mkDatapoint 200 0 0, mkDatapoint 300 0 0]
   \<and> outcome (findLocation (exampleMarker\<lparr>frequency := 150\<rparr>)
                [mkDatapoint 100 0 0, mkDatapoint 200 0 0, mkDatapoint 300 0 0])
       = Inr (1, 100, 300)
   \<and> distance 150 (mkDatapoint 100 0 0) = distance 150 (mkDatapoint 200 0 0)
   \<and> sorted_wrt (<) (map freq [mkDatapoint 0 0 0, mkDatapoint 200 0 0, mkDatapoint 300 0 0])
   \<and> \<not> outside_range 0 [mkDatapoint 0 0 0, mkDatapoint 200 0 0, mkDatapoint 300 0 0]
   \<and> outcome (findLocation (exampleMarker\<lparr>frequency := 0\<rparr>)
                [mkDatapoint 0 0 0, mkDatapoint 200 0 0, mkDatapoint 300 0 0])
       = Inr (- 1, - 1, - 1)
   \<and> sorted_wrt (<) (map freq [mkDatapoint 1 0 0, mkDatapoint 11 0 0])
   \<and> \<not> outside_range 16 [mkDatapoint 1 0 0, mkDatapoint 11 0 0]
   \<and> outcome (findLocation (exampleMarker\<lparr>frequency := 16\<rparr>)
                [mkDatapoint 1 0 0, mkDatapoint 11 0 0])
       = Inr (- 1, - 1, 1)"
  by (simp add: run_findLocation outside_range_def lower_margin_def upper_margin_def
      distance_def)

section \<open>A sweep of one sample\<close>

text \<open>
  Claim C2 says that \<open>findLocation\<close> returns normally on a sequence of one sample, with both
  margins zero. The code guards the empty sequence only: with one sample and a target other
  than zero it reads \<open>data[1]\<close> for the lower step and raises \<open>IndexError\<close>.
\<close>

theorem findLocation_single_sample_raises:
  "findLocation exampleMarker [mkDatapoint 123456000 0.9 (- 0.1)] = Inl IndexError"
  by (simp add: run_findLocation exampleMarker_frequency)


text \<open>
  Claim C3 says that a target outside the tolerant range gives the all-unset outcome without
  an exception. With one sample at 124000000 Hz both margins are zero, the target
  123456000 Hz lies below the range, and the code raises \<open>IndexError\<close> for the same missing
  guard.
\<close>

theorem findLocation_single_sample_outside_raises:
  "outside_range (frequency exampleMarker) [mkDatapoint 124000000 0.91 (- 0.95)]
   \<and> findLocation exampleMarker [mkDatapoint 124000000 0.91 (- 0.95)] = Inl IndexError"
  by (simp add: run_findLocation exampleMarker_frequency outside_range_def lower_margin_def
      upper_margin_def)


section \<open>Lemmas for \<open>updateLabels\<close> and the resolved example\<close>

lemma py_index_valid:
  "0 \<le> i \<Longrightarrow> i < int (length xs) \<Longrightarrow> py_index xs i = Inr (xs ! nat i)"
  by (simp add: py_index_def)

lemma setText_simps:
  "label (setText self k v) = (label self)(k \<mapsto> v)"
  "location (setText self k v) = location self"
  "returnloss_is_positive (setText self k v) = returnloss_is_positive self"
  "frequency (setText self k v) = frequency self"
  "frequencyInput (setText self k v) = frequencyInput self"
  by (simp_all add: setText_def)

lemma buildForm_simps:
  "frequency (buildForm w self) = frequency self"
  "location (buildForm w self) = location self"
  "frequencyInput (buildForm w self) = frequencyInput self"
  "label (buildForm w self) = label self"
  "returnloss_is_positive (buildForm w self) = returnloss_is_positive self"
  "fieldSelection (buildForm w self) = fieldSelection self"
  by (simp_all add: buildForm_def Let_def)

lemma resetLabels_simps:
  "frequency (resetLabels self) = frequency self"
  "location (resetLabels self) = location self"
  "frequencyInput (resetLabels self) = frequencyInput self"
  "returnloss_is_positive (resetLabels self) = returnloss_is_positive self"
  "fieldSelection (resetLabels self) = fieldSelection self"
  by (simp_all add: resetLabels_def setText_def)

lemma findLocation_exampleData11:
  assumes "frequency self = 123456000"
  shows "findLocation self exampleData11 = Inr (stop_state (cleared self) exampleData11 2)"
proof -
  have nz: "frequency self \<noteq> 0" using assms by simp
  have len: "2 \<le> length exampleData11" by (simp add: exampleData11_simps)
  have inside: "\<not> outside_range (frequency self) exampleData11"
    by (simp add: outside_range_def lower_margin_def upper_margin_def exampleData11_simps assms)
  have "scan_loop (cleared self) exampleData11 0 124000000 exampleData11
          = Inr (stop_state (cleared self) exampleData11 2)"
    by (simp add: exampleData11_def mkDatapoint_def cleared_simps assms
        stop_state_def Let_def freq_at_def py_index_def bind_err_def)
  then show ?thesis
    using findLocation_ge2 [OF nz len] inside by (simp add: exampleData11_simps)
qed

lemma updateLabels_actualfreq:
  assumes "0 \<le> location self" and "location self < int (length s11data)"
    and "length s21data = length s11data"
  shows "\<exists>st. updateLabels E self s11data s21data = Inr st
     \<and> location st = location self \<and> frequency st = frequency self
     \<and> frequencyInput st = frequencyInput self
     \<and> label st ''actualfreq'' = Some (format_frequency E (freq (s11data ! nat (location self))))"
proof -
  have idx: "py_index s11data (location self) = Inr (s11data ! nat (location self))"
    using assms(1,2) by (rule py_index_valid)
  have idx21: "py_index s21data (location self) = Inr (s21data ! nat (location self))"
    using assms by (simp add: py_index_valid)
  have ne: "location self \<noteq> - 1" using assms(1) by simp
  show ?thesis
    unfolding updateLabels_def
    using ne assms(3) by (simp add: idx idx21 bind_err_def Let_def setText_simps)
qed

lemma resolvedExample_simps:
  "frequency resolvedExample = 123456000"
  "location resolvedExample = 1"
  "frequencyInput resolvedExample = \<lparr>nextFrequency = 124000000, previousFrequency = 123000000\<rparr>"
  "label resolvedExample ''actualfreq'' = Some ''123.500MHz''"
proof -
  obtain w m where sf: "setFieldSelection settingsWorld exampleMarker 1 = (w, m)"
    by (cases "setFieldSelection settingsWorld exampleMarker 1")
  have fm: "frequency m = 123456000"
    using sf by (auto simp: setFieldSelection_def list_copy_def Let_def buildForm_simps
        exampleMarker_frequency)
  let ?r = "resetLabels (stop_state (cleared m) exampleData11 2)"
  have loc: "location ?r = 1" by (simp add: resetLabels_simps stop_state_simps)
  have len21: "length exampleData21 = length exampleData11"
    by (simp add: exampleData21_def exampleData11_def)
  have "0 \<le> location ?r" "location ?r < int (length exampleData11)"
    "length exampleData21 = length exampleData11"
    unfolding loc by (simp_all add: exampleData11_simps len21)
  from updateLabels_actualfreq [OF this, of exampleEnv]
  obtain st where st: "updateLabels exampleEnv ?r exampleData11 exampleData21 = Inr st"
    "location st = location ?r" "frequency st = frequency ?r"
    "frequencyInput st = frequencyInput ?r"
    "label st ''actualfreq''
       = Some (format_frequency exampleEnv (freq (exampleData11 ! nat (location ?r))))"
    by blast
  have "updateMarker exampleEnv settingsWorld exampleMarker 1 = Inr (w, st)"
    unfolding updateMarker_def sf
    by (simp add: findLocation_exampleData11 [OF fm] bind_err_def st(1))
  then have eq: "resolvedExample = st" by (simp add: resolvedExample_def)
  show "frequency resolvedExample = 123456000"
    unfolding eq st(3) by (simp add: resetLabels_simps stop_state_simps cleared_simps fm)
  show "location resolvedExample = 1"
    unfolding eq st(2) by (rule loc)
  show "frequencyInput resolvedExample
          = \<lparr>nextFrequency = 124000000, previousFrequency = 123000000\<rparr>"
    unfolding eq st(4)
    by (simp add: resetLabels_simps stop_state_def Let_def set_nextFrequency_def
        set_previousFrequency_def cleared_def exampleData11_def mkDatapoint_def)
  show "label resolvedExample ''actualfreq'' = Some ''123.500MHz''"
    unfolding eq st(5) loc by (simp add: exampleData11_simps exampleEnv_def)
qed

lemma resolvedExample_in_range:
  "0 \<le> location resolvedExample" "location resolvedExample < int (length exampleData11)"
  by (simp_all add: resolvedExample_simps exampleData11_simps)

lemma exampleMarker_fieldSelection: "fieldSelection exampleMarker = None"
  by (simp add: exampleMarker_def Marker_init_def buildForm_simps)

section \<open>\<open>updateLabels\<close> on an unresolved marker\<close>

text \<open>
  Claim C10. For a marker whose location is \<open>-1\<close>, \<open>updateLabels\<close> returns at once: whatever
  the two sample sequences are, the marker comes back as it was, every label included, and
  no sequence is indexed (so none is indexed with \<open>-1\<close>, and empty sequences raise nothing).
\<close>

theorem updateLabels_unresolved:
  "location self = - 1 \<Longrightarrow> updateLabels E self s11data s21data = Inr self"
  by (simp add: updateLabels_def)

theorem updateLabels_unresolved_witness:
  "location exampleMarker = - 1
   \<and> updateLabels exampleEnv exampleMarker exampleData11 exampleData21 = Inr exampleMarker
   \<and> updateLabels exampleEnv exampleMarker [] [] = Inr exampleMarker"
  using updateLabels_unresolved [OF exampleMarker_location, of exampleEnv exampleData11 exampleData21]
    updateLabels_unresolved [OF exampleMarker_location, of exampleEnv "[]" "[]"]
  by (simp add: exampleMarker_location)

section \<open>Sequences of unequal length\<close>

text \<open>
  Claim C6. For a marker resolved on the S11 sequence and an S21 sequence of another length,
  \<open>updateLabels\<close> returns normally, leaves the labels \<open>s21gain\<close>, \<open>s21phase\<close> and
  \<open>s21groupdelay\<close> as they were, and sets every reflection label (\<open>actualfreq\<close>, \<open>impedance\<close>,
  \<open>admittance\<close>, the series and parallel fields, \<open>vswr\<close>, \<open>returnloss\<close>, \<open>s11q\<close>, \<open>s11phase\<close>,
  \<open>s11groupdelay\<close>) to the formatted value computed from the sample at the location.
\<close>

theorem updateLabels_mismatched:
  assumes "0 \<le> location self" and "location self < int (length s11data)"
    and "length s21data \<noteq> length s11data"
  shows "\<exists>st. updateLabels E self s11data s21data = Inr st
     \<and> label st ''s21gain'' = label self ''s21gain''
     \<and> label st ''s21phase'' = label self ''s21phase''
     \<and> label st ''s21groupdelay'' = label self ''s21groupdelay''
     \<and> (let s11 = s11data ! nat (location self);
             imp = impedance E s11;
             imp_p = serial_to_parallel E imp;
             cap_str = format_capacitance E (impedance_to_capacitance E imp (freq s11));
             ind_str = format_inductance E (impedance_to_inductance E imp (freq s11));
             cap_p_str = format_capacitance E (impedance_to_capacitance E imp_p (freq s11));
             ind_p_str = format_inductance E (impedance_to_inductance E imp_p (freq s11))
         in label st ''actualfreq'' = Some (format_frequency E (freq s11))
          \<and> label st ''impedance'' = Some (format_complex_imp E imp)
          \<and> label st ''admittance'' = Some (format_complex_imp E imp_p)
          \<and> label st ''serr'' = Some (format_resistance E (Re imp))
          \<and> label st ''serlc'' = Some (if Im imp < 0 then cap_str else ind_str)
          \<and> label st ''serc'' = Some cap_str
          \<and> label st ''serl'' = Some ind_str
          \<and> label st ''parr'' = Some (format_resistance E (Re imp_p))
          \<and> label st ''parlc'' = Some (if Im imp_p < 0 then cap_p_str else ind_p_str)
          \<and> label st ''parc'' = Some cap_p_str
          \<and> label st ''parl'' = Some ind_p_str
          \<and> label st ''vswr'' = Some (format_vswr E (vswr E s11))
          \<and> label st ''returnloss''
              = Some (format_gain E (gain E s11) (returnloss_is_positive self))
          \<and> label st ''s11q'' = Some (format_q_factor E (qFactor E s11))
          \<and> label st ''s11phase'' = Some (format_phase E (phase E s11))
          \<and> label st ''s11groupdelay''
              = Some (format_group_delay E (groupDelay E s11data (location self))))"
proof -
  have idx: "py_index s11data (location self) = Inr (s11data ! nat (location self))"
    using assms(1,2) by (rule py_index_valid)
  have ne: "location self \<noteq> - 1" using assms(1) by simp
  show ?thesis
    unfolding updateLabels_def
    using ne assms(3) by (simp add: idx bind_err_def Let_def setText_simps)
qed

theorem updateLabels_mismatched_witness:
  "0 \<le> location resolvedExample
   \<and> location resolvedExample < int (length exampleData11)
   \<and> length ([] :: Datapoint list) \<noteq> length exampleData11
   \<and> (\<exists>st. updateLabels exampleEnv resolvedExample exampleData11 [] = Inr st
          \<and> label st ''s21gain'' = label resolvedExample ''s21gain''
          \<and> label st ''s21phase'' = label resolvedExample ''s21phase''
          \<and> label st ''s21groupdelay'' = label resolvedExample ''s21groupdelay''
          \<and> label st ''actualfreq'' = Some ''123.500MHz''
          \<and> label st ''vswr'' = Some ''vswr''
          \<and> label st ''s11groupdelay'' = Some ''4 s'')"
proof -
  have h3: "length ([] :: Datapoint list) \<noteq> length exampleData11"
    by (simp add: exampleData11_simps)
  from updateLabels_mismatched [OF resolvedExample_in_range h3, of exampleEnv]
  obtain st where st: "updateLabels exampleEnv resolvedExample exampleData11 [] = Inr st"
    "label st ''s21gain'' = label resolvedExample ''s21gain''"
    "label st ''s21phase'' = label resolvedExample ''s21phase''"
    "label st ''s21groupdelay'' = label resolvedExample ''s21groupdelay''"
    "label st ''actualfreq''
       = Some (format_frequency exampleEnv (freq (exampleData11 ! nat (location resolvedExample))))"
    "label st ''vswr''
       = Some (format_vswr exampleEnv (vswr exampleEnv (exampleData11 ! nat (location resolvedExample))))"
    "label st ''s11groupdelay''
       = Some (format_group_delay exampleEnv
                (groupDelay exampleEnv exampleData11 (location resolvedExample)))"
    unfolding Let_def by blast
  have "label st ''actualfreq'' = Some ''123.500MHz''" "label st ''vswr'' = Some ''vswr''"
    "label st ''s11groupdelay'' = Some ''4 s''"
    unfolding st by (simp_all add: resolvedExample_simps exampleData11_simps exampleEnv_def)
  then show ?thesis
    using st(1-4) resolvedExample_in_range h3 by simp
qed

section \<open>The S21 group delay\<close>

text \<open>
  Claim C7. For a marker resolved on the S11 sequence and an S21 sequence of the same length,
  the text of \<open>s21groupdelay\<close> is the formatted half of \<open>groupDelay\<close> applied to the S21
  sequence at the location, where \<open>groupDelay\<close> is the same function whose value on the S11
  sequence, not halved, is shown as \<open>s11groupdelay\<close>.
\<close>

theorem updateLabels_s21groupdelay:
  assumes "0 \<le> location self" and "location self < int (length s11data)"
    and "length s21data = length s11data"
  shows "\<exists>st. updateLabels E self s11data s21data = Inr st
     \<and> label st ''s21groupdelay''
         = Some (format_group_delay E (groupDelay E s21data (location self) / 2))
     \<and> label st ''s11groupdelay''
         = Some (format_group_delay E (groupDelay E s11data (location self)))"
proof -
  have idx: "py_index s11data (location self) = Inr (s11data ! nat (location self))"
    using assms(1,2) by (rule py_index_valid)
  have idx21: "py_index s21data (location self) = Inr (s21data ! nat (location self))"
    using assms by (simp add: py_index_valid)
  have ne: "location self \<noteq> - 1" using assms(1) by simp
  show ?thesis
    unfolding updateLabels_def
    using ne assms(3) by (simp add: idx idx21 bind_err_def Let_def setText_simps)
qed

theorem updateLabels_s21groupdelay_witness:
  "0 \<le> location resolvedExample
   \<and> location resolvedExample < int (length exampleData11)
   \<and> length exampleData21 = length exampleData11
   \<and> (\<exists>st. updateLabels exampleEnv resolvedExample exampleData11 exampleData21 = Inr st
          \<and> label st ''s21groupdelay'' = Some ''2 s''
          \<and> label st ''s11groupdelay'' = Some ''4 s'')"
proof -
  have h3: "length exampleData21 = length exampleData11"
    by (simp add: exampleData21_def exampleData11_def)
  have "format_group_delay exampleEnv
          (groupDelay exampleEnv exampleData21 (location resolvedExample) / 2) = ''2 s''"
    "format_group_delay exampleEnv
          (groupDelay exampleEnv exampleData11 (location resolvedExample)) = ''4 s''"
    by (simp_all add: exampleEnv_def)
  then show ?thesis
    using updateLabels_s21groupdelay [OF resolvedExample_in_range h3, of exampleEnv]
      resolvedExample_in_range h3 by simp
qed

section \<open>\<open>setFrequency\<close> and the signal \<open>updated\<close>\<close>

text \<open>
  Claim C8, as amended. \<open>setFrequency\<close> stores the parsed frequency and then emits \<open>updated\<close>
  once, with the marker carrying the new frequency and its location, neighbour frequencies
  and labels as they were before the call: it resolves nothing and computes no metric.
  Resolving and filling the labels are \<open>findLocation\<close> and \<open>updateLabels\<close>, for the receiver
  of the signal to call.
\<close>

theorem setFrequency_emits_unresolved:
  "\<exists>self'. setFrequency E self frequency_str = (self', [Updated self'])
     \<and> frequency self' = parseFrequency E frequency_str
     \<and> location self' = location self
     \<and> frequencyInput self' = frequencyInput self
     \<and> label self' = label self"
  by (simp add: setFrequency_def Let_def)

text \<open>
  Claim C8 as stated fails on the example marker, resolved at 123456000 Hz to index 1 with
  \<open>actualfreq\<close> showing 123.500MHz: when its frequency is set to 124000000 Hz, the marker that
  the signal delivers has the new frequency but still location 1 and the old label, while
  resolving that marker on the same sweep gives index 2.
\<close>

theorem setFrequency_stale_counterexample:
  "frequency resolvedExample = 123456000
   \<and> location resolvedExample = 1
   \<and> label resolvedExample ''actualfreq'' = Some ''123.500MHz''
   \<and> snd (setFrequency exampleEnv resolvedExample ''124000000'')
       = [Updated (fst (setFrequency exampleEnv resolvedExample ''124000000''))]
   \<and> frequency (fst (setFrequency exampleEnv resolvedExample ''124000000'')) = 124000000
   \<and> location (fst (setFrequency exampleEnv resolvedExample ''124000000'')) = 1
   \<and> label (fst (setFrequency exampleEnv resolvedExample ''124000000'')) ''actualfreq''
       = Some ''123.500MHz''
   \<and> outcome (findLocation (fst (setFrequency exampleEnv resolvedExample ''124000000''))
                exampleData11)
       = Inr (2, 123500000, - 1)"
proof -
  have p: "parseFrequency exampleEnv ''124000000'' = 124000000"
    by (simp add: exampleEnv_def)
  have "outcome (findLocation (resolvedExample\<lparr>frequency := 124000000\<rparr>) exampleData11)
          = Inr (2, 123500000, - 1)"
    by (simp add: run_findLocation exampleData11_def)
  then show ?thesis
    by (simp add: setFrequency_def Let_def p resolvedExample_simps)
qed

section \<open>Field selections of different markers\<close>

text \<open>
  Claim C9, as amended. \<open>setFieldSelection\<close> gives the marker a list of its own, a copy of the
  list passed. For any other marker whose selection is a list that existed before the call:
  the marker's selection after the call is the content of the list passed; the other marker's
  selection is unchanged; appending to the list passed afterwards does not change the marker's
  selection; appending to the marker's own list does not change the other marker's selection,
  nor does appending to the other marker's list change the marker's.
\<close>

theorem setFieldSelection_private_copy:
  assumes "get_fieldSelection w other < length (heap w)" and "fields_arg < length (heap w)"
  shows "case setFieldSelection w self fields_arg of
           (w', self') \<Rightarrow>
             selection w' self' = heap w ! fields_arg
           \<and> selection w' other = selection w other
           \<and> selection (list_append w' fields_arg x) self' = selection w' self'
           \<and> selection (list_append w' (get_fieldSelection w' self') x) other
               = selection w' other
           \<and> selection (list_append w' (get_fieldSelection w' other) x) self'
               = selection w' self'"
  using assms
  by (simp add: setFieldSelection_def list_copy_def selection_def get_fieldSelection_def
      list_append_def buildForm_simps nth_append nth_list_update Let_def
      split: option.splits)

theorem setFieldSelection_private_copy_witness:
  "get_fieldSelection settingsWorld (exampleMarker\<lparr>frequency := 124000000\<rparr>)
     < length (heap settingsWorld)
   \<and> 1 < length (heap settingsWorld)
   \<and> selection (fst (setFieldSelection settingsWorld exampleMarker 1))
        (snd (setFieldSelection settingsWorld exampleMarker 1)) = default_field_names
   \<and> selection (fst (setFieldSelection settingsWorld exampleMarker 1))
        (exampleMarker\<lparr>frequency := 124000000\<rparr>) = []
   \<and> selection (list_append (fst (setFieldSelection settingsWorld exampleMarker 1)) 1 ''serr'')
        (snd (setFieldSelection settingsWorld exampleMarker 1)) = default_field_names"
proof -
  have h1: "get_fieldSelection settingsWorld (exampleMarker\<lparr>frequency := 124000000\<rparr>)
              < length (heap settingsWorld)"
    by (simp add: get_fieldSelection_def exampleMarker_fieldSelection settingsWorld_def)
  have h2: "1 < length (heap settingsWorld)"
    by (simp add: settingsWorld_def)
  have sel: "selection settingsWorld (exampleMarker\<lparr>frequency := 124000000\<rparr>) = []"
    "heap settingsWorld ! Suc 0 = default_field_names"
    by (simp_all add: selection_def get_fieldSelection_def exampleMarker_fieldSelection
        settingsWorld_def)
  show ?thesis
    using setFieldSelection_private_copy [OF h1 h2, where self = exampleMarker and x = "''serr''"]
      h1 h2
    by (simp add: sel split_beta)
qed

text \<open>
  Claim C9 as stated fails on two markers fresh from \<open>__init__\<close>: neither has a
  \<open>fieldSelection\<close> of its own, both read the one list of the class, which is empty and not
  the default field names, and an element appended to it through one marker shows up in the
  selection of the other.
\<close>

theorem fieldSelection_shared_counterexample:
  "fieldSelection (Marker_init exampleEnv initialWorld ''123456000'') = None
   \<and> fieldSelection (Marker_init exampleEnv initialWorld ''124000000'') = None
   \<and> selection initialWorld (Marker_init exampleEnv initialWorld ''123456000'') = []
   \<and> default_field_names \<noteq> []
   \<and> get_fieldSelection initialWorld (Marker_init exampleEnv initialWorld ''123456000'')
       = get_fieldSelection initialWorld (Marker_init exampleEnv initialWorld ''124000000'')
   \<and> selection initialWorld (Marker_init exampleEnv initialWorld ''124000000'') = []
   \<and> selection
        (list_append initialWorld
           (get_fieldSelection initialWorld (Marker_init exampleEnv initialWorld ''123456000''))
           ''vswr'')
        (Marker_init exampleEnv initialWorld ''124000000'') = [''vswr'']"
  by (simp add: Marker_init_def buildForm_simps selection_def get_fieldSelection_def
      list_append_def initialWorld_def default_field_names_def LABELS_def mkField_def)


end
